theory Spec2Isabelle
  imports Complex_Main
begin

section \<open>JavaScript values used by the skill\<close>

text \<open>
  The skill is one JavaScript file, \<^verbatim>\<open>index.js\<close>.  Its functions are embedded below under
  their own names.  What JavaScript does implicitly is written out:
  \<^item> an uncaught exception is a value of \<open>js_error\<close>;
  \<^item> \<^verbatim>\<open>undefined\<close> is \<open>None\<close> (or the constructor \<open>Undefined\<close>), and the truthiness test of an
    \<^verbatim>\<open>if\<close> is a case distinction on it;
  \<^item> a number that is concatenated to a string is printed in decimal digits;
  \<^item> characters are the 8-bit characters of HOL, so only ASCII text is modelled.
\<close>

datatype js_error = TypeError | ReferenceError | SyntaxError

fun show_nat :: "nat \<Rightarrow> string" where
  "show_nat n =
     (if n < 10 then [''0123456789'' ! n]
      else show_nat (n div 10) @ [''0123456789'' ! (n mod 10)])"

declare show_nat.simps [simp del]

text \<open>
  \<open>show_int\<close> is the string JavaScript gives an integer-valued number of magnitude below
  \<open>2 ^ 53\<close>: its decimal digits, with a minus sign when it is negative.  From \<open>2 ^ 53\<close> on
  JavaScript prints the shortest digits that read back as the same double, filled up with
  zeros, and from \<open>10 ^ 21\<close> on it prints exponent notation; neither is modelled, so the
  numbers printed below are the years of dates and the whole feet of heights of magnitude
  below \<open>2 ^ 53\<close>.  Negative zero prints as \<^verbatim>\<open>0\<close>, which is what \<open>show_int 0\<close> is.
\<close>

definition show_int :: "int \<Rightarrow> string" where
  "show_int i = (if i < 0 then CHR ''-'' # show_nat (nat (- i)) else show_nat (nat i))"

text \<open>\<^verbatim>\<open>undefined\<close> concatenated to a string.\<close>

definition js_str :: "string option \<Rightarrow> string" where
  "js_str s = (case s of None \<Rightarrow> ''undefined'' | Some t \<Rightarrow> t)"

text \<open>\<^verbatim>\<open>String.prototype.toLowerCase\<close>, on ASCII.\<close>

definition upper_case :: string where
  "upper_case = ''ABCDEFGHIJKLMNOPQRSTUVWXYZ''"

definition lower_case :: string where
  "lower_case = ''abcdefghijklmnopqrstuvwxyz''"

definition toLowerChar :: "char \<Rightarrow> char" where
  "toLowerChar c = (case map_of (zip upper_case lower_case) c of Some d \<Rightarrow> d | None \<Rightarrow> c)"

definition toLowerCase :: "string \<Rightarrow> string" where
  "toLowerCase s = map toLowerChar s"

text \<open>
  A \<^verbatim>\<open>Date\<close> object, as far as the skill reads it: \<^verbatim>\<open>getFullYear()\<close>, \<^verbatim>\<open>getMonth()\<close> (0 to 11),
  \<^verbatim>\<open>getDate()\<close>, and hours and minutes for the time of a prediction.  The accessors of an
  invalid date return \<^verbatim>\<open>NaN\<close>.
\<close>

datatype jsdate = InvalidDate | DateTime int nat nat nat nat

section \<open>Requests, session and responses\<close>

text \<open>
  A slot of the intent may be missing, may be present without a value, or may carry a
  string.  \<open>slot_value\<close> is the test \<^verbatim>\<open>slot && slot.value\<close>: the empty string is falsy.
  The object \<^verbatim>\<open>intent.slots\<close> itself is taken to be present.
\<close>

type_synonym slot = "string option"

record intent =
  City :: "slot option"
  Date :: "slot option"

definition slot_value :: "slot option \<Rightarrow> string option" where
  "slot_value s =
     (case s of None \<Rightarrow> None
      | Some None \<Rightarrow> None
      | Some (Some v) \<Rightarrow> if v = [] then None else Some v)"

text \<open>
  What a property read \<^verbatim>\<open>STATIONS[key]\<close> can return.  \<^verbatim>\<open>STATIONS\<close> is an object literal, so
  besides its own seventeen keys a read finds the properties it inherits from
  \<^verbatim>\<open>Object.prototype\<close>.  After \<^verbatim>\<open>toLowerCase\<close> only two inherited names can be hit, since
  all others contain a capital letter: \<^verbatim>\<open>constructor\<close> (the function \<^verbatim>\<open>Object\<close>) and
  \<^verbatim>\<open>__proto__\<close> (the prototype object).
\<close>

datatype station_ref = Undefined | StationId nat | ObjectFunction | ObjectPrototype

definition truthy :: "station_ref \<Rightarrow> bool" where
  "truthy r = (case r of Undefined \<Rightarrow> False | StationId n \<Rightarrow> n \<noteq> 0 | _ \<Rightarrow> True)"

text \<open>A station reference concatenated into the query string.\<close>

definition station_str :: "station_ref \<Rightarrow> string" where
  "station_str r =
     (case r of
        Undefined \<Rightarrow> ''undefined''
      | StationId n \<Rightarrow> show_nat n
      | ObjectFunction \<Rightarrow> ''function Object() { [native code] }''
      | ObjectPrototype \<Rightarrow> ''[object Object]'')"

text \<open>
  The object \<^verbatim>\<open>getCityStationFromIntent\<close> returns: \<^verbatim>\<open>{error: true}\<close>,
  \<^verbatim>\<open>{error: true, city: cityName}\<close> or \<^verbatim>\<open>{city: cityName, station: id}\<close>.
\<close>

record city_station =
  error :: bool
  city :: "string option"
  station :: station_ref

record resolved_date =
  displayDate :: string
  requestDateParam :: string

text \<open>\<^verbatim>\<open>session.attributes\<close>, with the two keys the skill writes.\<close>

record attributes =
  attributes_city :: "city_station option"
  attributes_date :: "resolved_date option"

text \<open>The calls the skill makes on the \<^verbatim>\<open>response\<close> object.\<close>

datatype response_call =
    ask string string
  | tell string
  | tellWithCard string string string

text \<open>
  Modelled from the spec: the \<^verbatim>\<open>response\<close> object of \<^verbatim>\<open>AlexaSkill.js\<close> is not under
  \<^verbatim>\<open>src/\<close>.  The spec's outbound response has a reprompt "used when the turn expects a
  follow-up" and a flag that tells "end conversation" from "keep session open awaiting
  more input"; \<^verbatim>\<open>ask\<close> is the call that carries a reprompt.
\<close>

definition keepsSessionOpen :: "response_call \<Rightarrow> bool" where
  "keepsSessionOpen r = (case r of ask _ _ \<Rightarrow> True | _ \<Rightarrow> False)"

section \<open>Station directory and city resolver\<close>

definition STATIONS :: "(string \<times> nat) list" where
  "STATIONS =
     [(''plymouth'', 8446493),
      (''barnstable'', 8447335),
      (''sesuit harbor'', 8447241),
      (''wellfleet'', 8446613),
      (''provincetown'', 8446121),
      (''chatham stage harbor'', 8447505),
      (''harwichport wychmere harbor'', 8447506),
      (''south yarmouth bass river'', 8447504),
      (''dennisport'', 8447525),
      (''hyannisport'', 8447605),
      (''falmouth'', 8447865),
      (''woods hole'', 8447939),
      (''marion'', 8447385),
      (''new bedford'', 8447584),
      (''westport'', 8447975),
      (''duxbury'', 8446166),
      (''hingham'', 8444775)]"

text \<open>The property read \<^verbatim>\<open>STATIONS[key]\<close>.\<close>

definition STATIONS_get :: "string \<Rightarrow> station_ref" where
  "STATIONS_get key =
     (case map_of STATIONS key of
        Some n \<Rightarrow> StationId n
      | None \<Rightarrow>
          if key = ''constructor'' then ObjectFunction
          else if key = ''__proto__'' then ObjectPrototype
          else Undefined)"

text \<open>\<^verbatim>\<open>for (var station in STATIONS)\<close> enumerates the own keys in the order of the literal.\<close>

definition getAllStationsText :: string where
  "getAllStationsText = foldl (\<lambda>stationList (station, _). stationList @ station @ '', '') [] STATIONS"

definition getCityStationFromIntent :: "intent \<Rightarrow> bool \<Rightarrow> city_station" where
  "getCityStationFromIntent intent assignDefault =
     (case slot_value (City intent) of
        None \<Rightarrow>
          if \<not> assignDefault then \<lparr>error = True, city = None, station = Undefined\<rparr>
          else \<lparr>error = False, city = Some ''Plymouth'', station = STATIONS_get ''plymouth''\<rparr>
      | Some cityName \<Rightarrow>
          if truthy (STATIONS_get (toLowerCase cityName))
          then \<lparr>error = False, city = Some cityName,
                station = STATIONS_get (toLowerCase cityName)\<rparr>
          else \<lparr>error = True, city = Some cityName, station = Undefined\<rparr>)"

text \<open>
  Two characters differ at most in letter case when they are equal or are the capital
  and the small form of one letter; two strings do when they have the same length and
  their characters do, position by position.
\<close>

definition same_letter :: "char \<Rightarrow> char \<Rightarrow> bool" where
  "same_letter c d \<longleftrightarrow>
     c = d \<or> (c, d) \<in> set (zip upper_case lower_case) \<or> (d, c) \<in> set (zip upper_case lower_case)"

definition differ_only_in_case :: "string \<Rightarrow> string \<Rightarrow> bool" where
  "differ_only_in_case a b \<longleftrightarrow> list_all2 same_letter a b"

section \<open>Collaborators outside the file\<close>

text \<open>
  The outcome of the one \<^verbatim>\<open>https.get\<close>: either the request emits \<^verbatim>\<open>error\<close> with a
  message, or a response arrives with a status code and a body (the chunks of the
  \<^verbatim>\<open>data\<close> events, concatenated).
\<close>

datatype http_outcome = TransportError string | HttpResponse nat string

text \<open>
  A sample of the payload, \<^verbatim>\<open>{t: "2017-09-23 07:18", v: "4.000"}\<close>.  \<open>pred_t\<close> is the field
  \<^verbatim>\<open>t\<close>; \<open>pred_v\<close> is the number that \<^verbatim>\<open>parseFloat\<close> and the numeric operators read
  from the field \<^verbatim>\<open>v\<close>.  A finite double is a rational number, and the operations the skill
  applies to it (\<^verbatim>\<open><\<close>, \<^verbatim>\<open>Math.abs\<close>, \<^verbatim>\<open>% 1\<close>, \<^verbatim>\<open>Math.floor\<close>, \<^verbatim>\<open>Math.ceil\<close>) are exact, so they
  are the operations of \<open>real\<close> on that number.  \<^verbatim>\<open>NaN\<close> and the infinities are not modelled.
\<close>

record prediction =
  pred_t :: string
  pred_v :: real

text \<open>
  The object \<^verbatim>\<open>JSON.parse\<close> returns for the body: \<open>noaa_error\<close> is \<^verbatim>\<open>error.message\<close> when
  the payload has a (truthy) \<^verbatim>\<open>error\<close> field, \<open>predictions\<close> is the array when the payload
  has one.
\<close>

record noaa_response =
  noaa_error :: "string option"
  predictions :: "prediction list option"

text \<open>
  What the skill calls and does not define: the \<^verbatim>\<open>Date\<close> constructor on a string, the two
  formatters of \<^verbatim>\<open>alexaDateUtil.js\<close> (not under \<^verbatim>\<open>src/\<close>), the remote service behind
  \<^verbatim>\<open>https.get\<close>, and \<^verbatim>\<open>JSON.parse\<close> (\<open>None\<close> when it throws a \<^verbatim>\<open>SyntaxError\<close>).  They are
  parameters of the model.
\<close>

record env =
  newDate :: "string \<Rightarrow> jsdate"
  getFormattedDate :: "jsdate \<Rightarrow> string"
  getFormattedTime :: "jsdate \<Rightarrow> string"
  https_get :: "string \<Rightarrow> http_outcome"
  JSON_parse :: "string \<Rightarrow> noaa_response option"

section \<open>Date resolver\<close>

text \<open>\<^verbatim>\<open>n < 10 ? '0' + n : n\<close>, then concatenated.\<close>

definition pad2 :: "nat \<Rightarrow> string" where
  "pad2 n = (if n < 10 then ''0'' @ show_nat n else show_nat n)"

text \<open>
  The result is an option because both callers test \<^verbatim>\<open>!date\<close>; \<open>None\<close> stands for a falsy
  result.  Every \<^verbatim>\<open>return\<close> of the function returns an object literal.
\<close>

definition getDateFromIntent :: "env \<Rightarrow> intent \<Rightarrow> resolved_date option" where
  "getDateFromIntent e intent =
     (case slot_value (Date intent) of
        None \<Rightarrow> Some \<lparr>displayDate = ''Today'', requestDateParam = ''date=today''\<rparr>
      | Some val \<Rightarrow>
          (let date = newDate e val;
               month = (case date of InvalidDate \<Rightarrow> ''NaN''
                        | DateTime _ getMonth _ _ _ \<Rightarrow> pad2 (getMonth + 1));
               dayOfMonth = (case date of InvalidDate \<Rightarrow> ''NaN''
                             | DateTime _ _ getDate _ _ \<Rightarrow> pad2 getDate);
               fullYear = (case date of InvalidDate \<Rightarrow> ''NaN''
                           | DateTime getFullYear _ _ _ _ \<Rightarrow> show_int getFullYear);
               requestDay = ''begin_date='' @ fullYear @ month @ dayOfMonth @ ''&range=24''
           in Some \<lparr>displayDate = getFormattedDate e date, requestDateParam = requestDay\<rparr>))"

section \<open>Tide extractor\<close>

definition isTideIncreasing :: "prediction \<Rightarrow> prediction \<Rightarrow> bool" where
  "isTideIncreasing lastP currentP \<longleftrightarrow> pred_v lastP < pred_v currentP"

text \<open>
  \<^verbatim>\<open>height % 1\<close>: the remainder has the sign of the dividend.
\<close>

definition rem1 :: "real \<Rightarrow> real" where
  "rem1 x = (if x < 0 then - frac (- x) else frac x)"

definition getFormattedHeight :: "real \<Rightarrow> string" where
  "getFormattedHeight h =
     (let isNegative = h < 0;
          height = (if h < 0 then \<bar>h\<bar> else h);
          remainder = rem1 height;
          (feet, remainderText) =
            (if remainder < 0.25 then (\<lfloor>height\<rfloor>, [])
             else if remainder < 0.75 then (\<lfloor>height\<rfloor>, '' and a half'')
             else (\<lceil>height\<rceil>, []));
          feet = (if isNegative then feet * (- 1) else feet)
      in show_int feet @ remainderText @ '' feet'')"

text \<open>The local variables of the loop of \<^verbatim>\<open>findHighTide\<close>.\<close>

record scan =
  lastPrediction :: "prediction option"
  firstHighTide :: "prediction option"
  secondHighTide :: "prediction option"
  lowTide :: "prediction option"
  firstTideDone :: bool

definition scan_init :: scan where
  "scan_init = \<lparr>lastPrediction = None, firstHighTide = None, secondHighTide = None,
                 lowTide = None, firstTideDone = False\<rparr>"

text \<open>
  The \<^verbatim>\<open>for\<close> loop over the predictions that are left.  The \<^verbatim>\<open>break\<close> returns the variables
  as they are.
\<close>

fun scan_loop :: "prediction list \<Rightarrow> scan \<Rightarrow> scan" where
  "scan_loop [] s = s"
| "scan_loop (p # rest) s =
     (case lastPrediction s of
        None \<Rightarrow> scan_loop rest (s\<lparr>lastPrediction := Some p\<rparr>)
      | Some lastP \<Rightarrow>
          if isTideIncreasing lastP p then
            (if \<not> firstTideDone s
             then scan_loop rest (s\<lparr>firstHighTide := Some p, lastPrediction := Some p\<rparr>)
             else scan_loop rest (s\<lparr>secondHighTide := Some p, lastPrediction := Some p\<rparr>))
          else if \<not> firstTideDone s \<and> firstHighTide s \<noteq> None then
            scan_loop rest (s\<lparr>firstTideDone := True, lowTide := Some p, lastPrediction := Some p\<rparr>)
          else if secondHighTide s \<noteq> None then s
          else if firstTideDone s then
            scan_loop rest (s\<lparr>lowTide := Some p, lastPrediction := Some p\<rparr>)
          else scan_loop rest (s\<lparr>lastPrediction := Some p\<rparr>))"

record tide_summary =
  firstHighTideTime :: string
  firstHighTideHeight :: string
  lowTideTime :: string
  lowTideHeight :: string
  secondHighTideTime :: string
  secondHighTideHeight :: string

text \<open>
  Reading \<^verbatim>\<open>.length\<close> of a missing array, or \<^verbatim>\<open>.t\<close> of a variable the loop never assigned,
  throws a \<^verbatim>\<open>TypeError\<close>.
\<close>

definition findHighTide :: "env \<Rightarrow> noaa_response \<Rightarrow> js_error + tide_summary" where
  "findHighTide e noaaResponseObj =
     (case predictions noaaResponseObj of
        None \<Rightarrow> Inl TypeError
      | Some ps \<Rightarrow>
          (let s = scan_loop ps scan_init in
           case firstHighTide s of
             None \<Rightarrow> Inl TypeError
           | Some fh \<Rightarrow>
               (case lowTide s of
                  None \<Rightarrow> Inl TypeError
                | Some lo \<Rightarrow>
                    (case secondHighTide s of
                       None \<Rightarrow> Inl TypeError
                     | Some sh \<Rightarrow>
                         Inr \<lparr>firstHighTideTime = getFormattedTime e (newDate e (pred_t fh)),
                              firstHighTideHeight = getFormattedHeight (pred_v fh),
                              lowTideTime = getFormattedTime e (newDate e (pred_t lo)),
                              lowTideHeight = getFormattedHeight (pred_v lo),
                              secondHighTideTime = getFormattedTime e (newDate e (pred_t sh)),
                              secondHighTideHeight = getFormattedHeight (pred_v sh)\<rparr>))))"

section \<open>Tide data fetcher\<close>

text \<open>The arguments of one call of \<^verbatim>\<open>tideResponseCallback\<close>: an error, or \<^verbatim>\<open>null\<close> and a summary.\<close>

datatype callback_args = CallbackError string | CallbackResult tide_summary

text \<open>
  What one call of \<^verbatim>\<open>makeTideRequest\<close> does: the URL it requests, the calls of the callback
  in order, and the exception that ends an event handler, if one does.
\<close>

record fetch =
  url :: string
  callbacks :: "callback_args list"
  thrown :: "js_error option"

text \<open>
  In the \<^verbatim>\<open>end\<close> handler the branch for a payload with an \<^verbatim>\<open>error\<close> field reads
  \<^verbatim>\<open>noaaResponseObj.error.message\<close>; the variable of that handler is \<^verbatim>\<open>noaaResponseObject\<close>,
  and no \<^verbatim>\<open>noaaResponseObj\<close> is in scope, so the read throws a \<^verbatim>\<open>ReferenceError\<close> before
  the callback is reached.  The test of the status code has no \<^verbatim>\<open>return\<close>: the handlers for
  \<^verbatim>\<open>data\<close> and \<^verbatim>\<open>end\<close> are registered in either case.
\<close>

definition makeTideRequest :: "env \<Rightarrow> station_ref \<Rightarrow> resolved_date \<Rightarrow> fetch" where
  "makeTideRequest e stationRef date =
     (let datum = ''MLLW'';
          endpoint = ''https://tidesandcurrents.noaa.gov/api/datagetter'';
          queryString = ''?'' @ requestDateParam date;
          queryString = queryString @ ''&station='' @ station_str stationRef;
          queryString = queryString @ ''&product=predictions&datum='' @ datum
            @ ''&application=Alexa.CapeCod.Tides&units=english&time_zone=lst_ldt&format=json''
      in case https_get e (endpoint @ queryString) of
           TransportError message \<Rightarrow>
             \<lparr>url = endpoint @ queryString, callbacks = [CallbackError message], thrown = None\<rparr>
         | HttpResponse statusCode noaaResponseString \<Rightarrow>
             (let early = (if statusCode \<noteq> 200 then [CallbackError ''Non 200 Response''] else [])
              in case JSON_parse e noaaResponseString of
                   None \<Rightarrow>
                     \<lparr>url = endpoint @ queryString, callbacks = early, thrown = Some SyntaxError\<rparr>
                 | Some noaaResponseObject \<Rightarrow>
                     if noaa_error noaaResponseObject \<noteq> None then
                       \<lparr>url = endpoint @ queryString, callbacks = early,
                        thrown = Some ReferenceError\<rparr>
                     else
                       (case findHighTide e noaaResponseObject of
                          Inl err \<Rightarrow>
                            \<lparr>url = endpoint @ queryString, callbacks = early, thrown = Some err\<rparr>
                        | Inr highTide \<Rightarrow>
                            \<lparr>url = endpoint @ queryString,
                             callbacks = early @ [CallbackResult highTide], thrown = None\<rparr>)))"

section \<open>Dialog orchestrator\<close>

text \<open>
  What handling one request does: the session attributes afterwards, the calls on the
  \<^verbatim>\<open>response\<close> object in order, the URLs requested, and the uncaught exception, if any.
\<close>

record turn =
  session :: attributes
  said :: "response_call list"
  requested :: "string list"
  uncaught :: "js_error option"

definition tideResponseCallback :: "city_station \<Rightarrow> resolved_date \<Rightarrow> callback_args \<Rightarrow> response_call" where
  "tideResponseCallback cityStation date args =
     (let speechOutput =
            (case args of
               CallbackError _ \<Rightarrow>
                 ''Sorry, the National Oceanic tide service is experiencing a problem. Please try again later''
             | CallbackResult highTideResponse \<Rightarrow>
                 displayDate date @ '' in '' @ js_str (city cityStation)
                 @ '', the first high tide will be around '' @ firstHighTideTime highTideResponse
                 @ '', followed by a low tide at around '' @ lowTideTime highTideResponse
                 @ ''. The second high tide will be around '' @ secondHighTideTime highTideResponse)
      in tellWithCard speechOutput ''CapeCodTides'' speechOutput)"

definition getFinalTideResponse :: "env \<Rightarrow> city_station \<Rightarrow> resolved_date \<Rightarrow> attributes \<Rightarrow> turn" where
  "getFinalTideResponse e cityStation date attrs =
     (let f = makeTideRequest e (station cityStation) date
      in \<lparr>session = attrs,
          said = map (tideResponseCallback cityStation date) (callbacks f),
          requested = [url f],
          uncaught = thrown f\<rparr>)"

definition unknownCityReprompt :: string where
  "unknownCityReprompt =
     ''Currently, I know tide information for these coastal towns: '' @ getAllStationsText
     @ ''Which town would you like tide information for?''"

definition unknownCitySpeech :: "city_station \<Rightarrow> string" where
  "unknownCitySpeech cityStation =
     (case city cityStation of
        None \<Rightarrow> unknownCityReprompt
      | Some c \<Rightarrow>
          if c = [] then unknownCityReprompt
          else ''I'm sorry, I don't have any data for '' @ c @ ''. '' @ unknownCityReprompt)"

definition invalidDateReprompt :: string where
  "invalidDateReprompt =
     ''Please try again saying a day of the week, for example, Saturday. ''
     @ ''For which date would you like tide information?''"

definition handleSupportedCitiesRequest :: "attributes \<Rightarrow> turn" where
  "handleSupportedCitiesRequest attrs =
     (let repromptText = ''Which town?'';
          speechOutput = ''Currently, I know tide information for these towns: ''
            @ getAllStationsText @ repromptText
      in \<lparr>session = attrs, said = [ask speechOutput repromptText], requested = [],
          uncaught = None\<rparr>)"

definition handleCityDialogRequest :: "env \<Rightarrow> intent \<Rightarrow> attributes \<Rightarrow> turn" where
  "handleCityDialogRequest e intent attrs =
     (let cityStation = getCityStationFromIntent intent False in
      if error cityStation then
        \<lparr>session = attrs, said = [ask (unknownCitySpeech cityStation) unknownCityReprompt],
         requested = [], uncaught = None\<rparr>
      else
        (case attributes_date attrs of
           Some date \<Rightarrow> getFinalTideResponse e cityStation date attrs
         | None \<Rightarrow>
             \<lparr>session = attrs\<lparr>attributes_city := Some cityStation\<rparr>,
              said = [ask ''For which date?''
                        (''For which date would you like tide information for ''
                         @ js_str (city cityStation) @ ''?'')],
              requested = [], uncaught = None\<rparr>))"

definition handleDateDialogRequest :: "env \<Rightarrow> intent \<Rightarrow> attributes \<Rightarrow> turn" where
  "handleDateDialogRequest e intent attrs =
     (case getDateFromIntent e intent of
        None \<Rightarrow>
          \<lparr>session = attrs,
           said = [ask (''I'm sorry, I didn't understand that date. '' @ invalidDateReprompt)
                     invalidDateReprompt],
           requested = [], uncaught = None\<rparr>
      | Some date \<Rightarrow>
          (case attributes_city attrs of
             Some cityStation \<Rightarrow> getFinalTideResponse e cityStation date attrs
           | None \<Rightarrow>
               \<lparr>session = attrs\<lparr>attributes_date := Some date\<rparr>,
                said = [ask (''For which town would you like tide information for ''
                             @ displayDate date @ ''?'')
                          ''For which town?''],
                requested = [], uncaught = None\<rparr>))"

definition handleNoSlotDialogRequest :: "attributes \<Rightarrow> turn" where
  "handleNoSlotDialogRequest attrs =
     (if attributes_city attrs \<noteq> None then
        (let repromptText = ''Please try again saying a day of the week, for example, Saturday. ''
         in \<lparr>session = attrs, said = [ask repromptText repromptText], requested = [],
             uncaught = None\<rparr>)
      else handleSupportedCitiesRequest attrs)"

definition handleOneshotTideRequest :: "env \<Rightarrow> intent \<Rightarrow> attributes \<Rightarrow> turn" where
  "handleOneshotTideRequest e intent attrs =
     (let cityStation = getCityStationFromIntent intent True in
      if error cityStation then
        \<lparr>session = attrs, said = [ask (unknownCitySpeech cityStation) unknownCityReprompt],
         requested = [], uncaught = None\<rparr>
      else
        (case getDateFromIntent e intent of
           None \<Rightarrow>
             \<lparr>session = attrs\<lparr>attributes_city := Some cityStation\<rparr>,
              said = [ask (''I'm sorry, I didn't understand that date. '' @ invalidDateReprompt)
                        invalidDateReprompt],
              requested = [], uncaught = None\<rparr>
         | Some date \<Rightarrow> getFinalTideResponse e cityStation date attrs))"

text \<open>The handler of \<^verbatim>\<open>DialogTideIntent\<close>.\<close>

definition DialogTideIntent :: "env \<Rightarrow> intent \<Rightarrow> attributes \<Rightarrow> turn" where
  "DialogTideIntent e intent attrs =
     (if slot_value (City intent) \<noteq> None then handleCityDialogRequest e intent attrs
      else if slot_value (Date intent) \<noteq> None then handleDateDialogRequest e intent attrs
      else handleNoSlotDialogRequest attrs)"

section \<open>Runs of a prediction series\<close>

text \<open>
  A rising run after a sample: every sample is strictly above the one before it.  A
  falling run: no sample is strictly above the one before it (equal levels count as
  falling, as in \<open>isTideIncreasing\<close>).
\<close>

fun rising_run :: "prediction \<Rightarrow> prediction list \<Rightarrow> bool" where
  "rising_run p [] = True"
| "rising_run p (q # qs) = (isTideIncreasing p q \<and> rising_run q qs)"

fun falling_run :: "prediction \<Rightarrow> prediction list \<Rightarrow> bool" where
  "falling_run p [] = True"
| "falling_run p (q # qs) = (\<not> isTideIncreasing p q \<and> falling_run q qs)"


section \<open>Example inputs\<close>

definition tide_series :: "prediction list" where
  "tide_series =
     [\<lparr>pred_t = ''2017-09-23 00:00'', pred_v = 1.0\<rparr>,
      \<lparr>pred_t = ''2017-09-23 03:00'', pred_v = 4.0\<rparr>,
      \<lparr>pred_t = ''2017-09-23 06:00'', pred_v = 2.0\<rparr>,
      \<lparr>pred_t = ''2017-09-23 09:00'', pred_v = 0.5\<rparr>,
      \<lparr>pred_t = ''2017-09-23 12:00'', pred_v = 3.0\<rparr>,
      \<lparr>pred_t = ''2017-09-23 15:00'', pred_v = 6.0\<rparr>,
      \<lparr>pred_t = ''2017-09-23 18:00'', pred_v = 5.0\<rparr>]"

definition rising_series :: "prediction list" where
  "rising_series =
     [\<lparr>pred_t = ''2017-09-23 00:00'', pred_v = 1.0\<rparr>,
      \<lparr>pred_t = ''2017-09-23 03:00'', pred_v = 2.0\<rparr>,
      \<lparr>pred_t = ''2017-09-23 06:00'', pred_v = 3.0\<rparr>]"

definition example_newDate :: "string \<Rightarrow> jsdate" where
  "example_newDate s =
     (case map_of
        [(''2017-09-23'', DateTime 2017 8 23 0 0),
         (''2017-09-23 03:00'', DateTime 2017 8 23 3 0),
         (''2017-09-23 09:00'', DateTime 2017 8 23 9 0),
         (''2017-09-23 15:00'', DateTime 2017 8 23 15 0)] s of
        Some d \<Rightarrow> d
      | None \<Rightarrow> InvalidDate)"

definition example_env :: "http_outcome \<Rightarrow> noaa_response option \<Rightarrow> env" where
  "example_env outcome parsed =
     \<lparr>newDate = example_newDate,
      getFormattedDate = (\<lambda>d. case d of InvalidDate \<Rightarrow> ''Invalid Date''
                                | DateTime y m d _ _ \<Rightarrow> show_int y @ ''-'' @ pad2 (m + 1) @ ''-'' @ pad2 d),
      getFormattedTime = (\<lambda>d. case d of InvalidDate \<Rightarrow> ''Invalid Date''
                                | DateTime _ _ _ h m \<Rightarrow> pad2 h @ '':'' @ pad2 m),
      https_get = (\<lambda>_. outcome),
      JSON_parse = (\<lambda>_. parsed)\<rparr>"

definition example_summary :: tide_summary where
  "example_summary =
     \<lparr>firstHighTideTime = ''03:00'', firstHighTideHeight = ''4 feet'',
      lowTideTime = ''09:00'', lowTideHeight = ''0 and a half feet'',
      secondHighTideTime = ''15:00'', secondHighTideHeight = ''6 feet''\<rparr>"

section \<open>Evaluation lemmas\<close>

lemma show_nat_digit: "n < 10 \<Longrightarrow> show_nat n = [''0123456789'' ! n]"
  by (simp add: show_nat.simps)

lemma show_nat_plymouth: "show_nat 8446493 = ''8446493''"
  by (simp add: show_nat.simps)

lemma show_int_2017: "show_int 2017 = ''2017''"
  by (simp add: show_int_def show_nat.simps)

lemma pad2_examples: "pad2 3 = ''03''" "pad2 9 = ''09''" "pad2 15 = ''15''" "pad2 23 = ''23''" "pad2 0 = ''00''"
  by (simp_all add: pad2_def show_nat.simps)

section \<open>City resolver\<close>

lemma toLowerChar_pairs:
  "\<forall>(u, l) \<in> set (zip upper_case lower_case). toLowerChar u = l \<and> toLowerChar l = l"
  by (simp add: toLowerChar_def upper_case_def lower_case_def)

lemma toLowerChar_same_letter: "same_letter c d \<Longrightarrow> toLowerChar c = toLowerChar d"
  unfolding same_letter_def using toLowerChar_pairs by fastforce

lemma toLowerCase_differ_only_in_case:
  "differ_only_in_case a b \<Longrightarrow> toLowerCase a = toLowerCase b"
  unfolding differ_only_in_case_def toLowerCase_def
  by (induction a b rule: list_all2_induct) (auto dest: toLowerChar_same_letter)

lemma differ_only_in_case_Nil: "differ_only_in_case a b \<Longrightarrow> a = [] \<longleftrightarrow> b = []"
  unfolding differ_only_in_case_def by (auto dest: list_all2_lengthD)

lemma toLowerCase_Plymouth: "toLowerCase ''Plymouth'' = ''plymouth''"
  by (simp add: toLowerCase_def toLowerChar_def upper_case_def lower_case_def)

lemma STATIONS_get_plymouth: "STATIONS_get ''plymouth'' = StationId 8446493"
  by (simp add: STATIONS_get_def STATIONS_def)

lemma STATIONS_nonzero: "map_of STATIONS k = Some n \<Longrightarrow> n \<noteq> 0"
  by (drule map_of_SomeD) (auto simp: STATIONS_def)

lemma STATIONS_get_own: "map_of STATIONS k = Some n \<Longrightarrow> STATIONS_get k = StationId n"
  by (simp add: STATIONS_get_def)

text \<open>
  Claim C8.  For two city slot values that differ only in letter case, the city resolver
  returns the same station identifier (and the same error flag), whatever the rest of
  the intent is.
\<close>

theorem city_resolver_ignores_letter_case:
  assumes "differ_only_in_case a b"
  shows "station (getCityStationFromIntent (i\<lparr>City := Some (Some a)\<rparr>) assignDefault)
           = station (getCityStationFromIntent (j\<lparr>City := Some (Some b)\<rparr>) assignDefault)
       \<and> error (getCityStationFromIntent (i\<lparr>City := Some (Some a)\<rparr>) assignDefault)
           = error (getCityStationFromIntent (j\<lparr>City := Some (Some b)\<rparr>) assignDefault)"
proof -
  have lower: "toLowerCase a = toLowerCase b"
    using assms by (rule toLowerCase_differ_only_in_case)
  have empty: "a = [] \<longleftrightarrow> b = []"
    using assms by (rule differ_only_in_case_Nil)
  show ?thesis
    by (simp add: getCityStationFromIntent_def slot_value_def lower empty)
qed

theorem city_resolver_ignores_letter_case_witness:
  "differ_only_in_case ''Plymouth'' ''PLYMOUTH''
   \<and> station (getCityStationFromIntent \<lparr>City = Some (Some ''PLYMOUTH''), Date = None\<rparr> False)
       = StationId 8446493"
proof -
  have h: "differ_only_in_case ''Plymouth'' ''PLYMOUTH''"
    by (simp add: differ_only_in_case_def same_letter_def upper_case_def lower_case_def)
  have "station (getCityStationFromIntent \<lparr>City = Some (Some ''Plymouth''), Date = None\<rparr> False)
          = StationId 8446493"
    by (simp add: getCityStationFromIntent_def slot_value_def toLowerCase_Plymouth
        STATIONS_get_plymouth truthy_def)
  with h city_resolver_ignores_letter_case [OF h, of "\<lparr>City = None, Date = None\<rparr>" False
      "\<lparr>City = None, Date = None\<rparr>"]
  show ?thesis by simp
qed

section \<open>Date resolver\<close>

lemma getDateFromIntent_never_fails: "getDateFromIntent e intent \<noteq> None"
  by (simp add: getDateFromIntent_def Let_def split: option.split)

text \<open>
  Claim C1.  The claim asks that a date slot value that is not a calendar date makes the
  date resolver fail, so that the callers' branch for \<^verbatim>\<open>!date\<close> is taken.  The resolver
  returns an object for every input (\<open>getDateFromIntent_never_fails\<close>).  For the value
  \<^verbatim>\<open>not a date\<close>, which \<^verbatim>\<open>new Date\<close> turns into an invalid date, it returns the display text
  of the invalid date and the query parameter \<^verbatim>\<open>begin_date=NaNNaNNaN&range=24\<close>; the dialog
  handler stores that result in the session and asks for the town.
\<close>

theorem unparseable_date_not_rejected:
  "getDateFromIntent (e\<lparr>newDate := \<lambda>_. InvalidDate\<rparr>)
       \<lparr>City = c, Date = Some (Some ''not a date'')\<rparr>
     = Some \<lparr>displayDate = getFormattedDate e InvalidDate,
             requestDateParam = ''begin_date=NaNNaNNaN&range=24''\<rparr>
   \<and> handleDateDialogRequest (e\<lparr>newDate := \<lambda>_. InvalidDate\<rparr>)
       \<lparr>City = c, Date = Some (Some ''not a date'')\<rparr>
       \<lparr>attributes_city = None, attributes_date = None\<rparr>
     = \<lparr>session = \<lparr>attributes_city = None,
                    attributes_date = Some \<lparr>displayDate = getFormattedDate e InvalidDate,
                       requestDateParam = ''begin_date=NaNNaNNaN&range=24''\<rparr>\<rparr>,
        said = [ask (''For which town would you like tide information for ''
                     @ getFormattedDate e InvalidDate @ ''?'') ''For which town?''],
        requested = [], uncaught = None\<rparr>"
  by (simp add: handleDateDialogRequest_def getDateFromIntent_def slot_value_def)

section \<open>Height formatting\<close>

lemma rem1_abs: "rem1 \<bar>h\<bar> = frac \<bar>h\<bar>"
  by (simp add: rem1_def)

lemma ceiling_frac_pos: "0 < frac (x::real) \<Longrightarrow> \<lceil>x\<rceil> = \<lfloor>x\<rfloor> + 1"
  by (metis ceiling_altdef frac_eq_0_iff less_irrefl Ints_of_int)

lemma getFormattedHeight_abs:
  "getFormattedHeight h =
     (let (feet, remainderText) =
            (if frac \<bar>h\<bar> < 1/4 then (\<lfloor>\<bar>h\<bar>\<rfloor>, [])
             else if frac \<bar>h\<bar> < 3/4 then (\<lfloor>\<bar>h\<bar>\<rfloor>, '' and a half'')
             else (\<lceil>\<bar>h\<bar>\<rceil>, []))
      in show_int (if h < 0 then - feet else feet) @ remainderText @ '' feet'')"
proof -
  have "(if h < 0 then \<bar>h\<bar> else h) = \<bar>h\<bar>" by simp
  then show ?thesis
    unfolding getFormattedHeight_def Let_def rem1_abs by (simp add: rem1_abs)
qed

lemma getFormattedHeight_examples:
  "getFormattedHeight 4 = ''4 feet''"
  "getFormattedHeight (1/2) = ''0 and a half feet''"
  "getFormattedHeight 6 = ''6 feet''"
  "getFormattedHeight (41/10) = ''4 feet''"
  by (simp_all add: getFormattedHeight_abs frac_def show_int_def show_nat_digit)

text \<open>
  The doubles nearest to 4.1, 4.3, 4.8 and -4.3, as exact fractions: they lie in the same
  bands as the decimal numbers.
\<close>

lemma getFormattedHeight_doubles:
  "getFormattedHeight (2308094809027379 / 562949953421312) = ''4 feet''"
  "getFormattedHeight (4841369599423283 / 1125899906842624) = ''4 and a half feet''"
  "getFormattedHeight (5404319552844595 / 1125899906842624) = ''5 feet''"
  "getFormattedHeight (- 4841369599423283 / 1125899906842624) = ''-4 and a half feet''"
  by (simp_all add: getFormattedHeight_abs frac_def show_int_def show_nat_digit)

text \<open>
  The rounding bands, for a height of magnitude below \<open>2 ^ 53\<close> (where the whole feet print
  in plain digits).  With \<open>a\<close> the absolute value of the height: a fractional part of \<open>a\<close>
  below .25 gives the whole part of \<open>a\<close>, a fractional part from .25 up to but not
  including .75 gives the whole part "and a half", and a fractional part of .75 or more
  gives the next whole number; the whole number is negated for a negative height.
\<close>

lemma getFormattedHeight_bands:
  fixes h :: real
  assumes "\<bar>h\<bar> < 2 ^ 53"
  shows "(frac \<bar>h\<bar> < 1/4 \<longrightarrow>
            getFormattedHeight h = show_int (if h < 0 then - \<lfloor>\<bar>h\<bar>\<rfloor> else \<lfloor>\<bar>h\<bar>\<rfloor>) @ '' feet'')
       \<and> (1/4 \<le> frac \<bar>h\<bar> \<and> frac \<bar>h\<bar> < 3/4 \<longrightarrow>
            getFormattedHeight h =
              show_int (if h < 0 then - \<lfloor>\<bar>h\<bar>\<rfloor> else \<lfloor>\<bar>h\<bar>\<rfloor>) @ '' and a half feet'')
       \<and> (3/4 \<le> frac \<bar>h\<bar> \<longrightarrow>
            getFormattedHeight h =
              show_int (if h < 0 then - (\<lfloor>\<bar>h\<bar>\<rfloor> + 1) else \<lfloor>\<bar>h\<bar>\<rfloor> + 1) @ '' feet'')"
proof (intro conjI impI)
  assume "frac \<bar>h\<bar> < 1/4"
  then show "getFormattedHeight h = show_int (if h < 0 then - \<lfloor>\<bar>h\<bar>\<rfloor> else \<lfloor>\<bar>h\<bar>\<rfloor>) @ '' feet''"
    by (simp add: getFormattedHeight_abs)
next
  assume "1/4 \<le> frac \<bar>h\<bar> \<and> frac \<bar>h\<bar> < 3/4"
  then show "getFormattedHeight h =
      show_int (if h < 0 then - \<lfloor>\<bar>h\<bar>\<rfloor> else \<lfloor>\<bar>h\<bar>\<rfloor>) @ '' and a half feet''"
    by (simp add: getFormattedHeight_abs)
next
  assume a: "3/4 \<le> frac \<bar>h\<bar>"
  then have "0 < frac \<bar>h\<bar>" by linarith
  then have "\<lceil>\<bar>h\<bar>\<rceil> = \<lfloor>\<bar>h\<bar>\<rfloor> + 1" by (rule ceiling_frac_pos)
  with a show "getFormattedHeight h =
      show_int (if h < 0 then - (\<lfloor>\<bar>h\<bar>\<rfloor> + 1) else \<lfloor>\<bar>h\<bar>\<rfloor> + 1) @ '' feet''"
    by (simp add: getFormattedHeight_abs)
qed

text \<open>
  The whole part is printed in digits, and a negative one with a minus sign.
\<close>

lemma getFormattedHeight_decimals:
  "getFormattedHeight 4.1 = ''4 feet''"
  "getFormattedHeight 4.3 = ''4 and a half feet''"
  "getFormattedHeight 4.8 = ''5 feet''"
  "getFormattedHeight (- 4.3) = ''-4 and a half feet''"
  by (simp_all add: getFormattedHeight_abs frac_def show_int_def show_nat_digit)

text \<open>
  Claim C5.  The claim asks that the formatted height preserves the sign of a negative
  reading.  The function notes the sign in \<^verbatim>\<open>isNegative\<close> and multiplies the whole feet by
  \<open>-1\<close>, but for a height between \<open>-1\<close> and \<open>0\<close> whose fractional part is below .75 the
  whole feet are zero, and negative zero prints as \<^verbatim>\<open>0\<close>: the height \<open>-0.3\<close> is formatted
  \<^verbatim>\<open>0 and a half feet\<close>, the text of the height \<open>0.3\<close>.
\<close>

theorem negative_height_loses_sign:
  "getFormattedHeight (- 0.3) = ''0 and a half feet''
   \<and> getFormattedHeight 0.3 = ''0 and a half feet''"
  by (simp add: getFormattedHeight_abs frac_def show_int_def show_nat_digit)

section \<open>Tide extractor\<close>

lemma scan_rise_first:
  "rising_run lp r \<Longrightarrow> r \<noteq> [] \<Longrightarrow> lastPrediction s = Some lp \<Longrightarrow> \<not> firstTideDone s \<Longrightarrow>
   scan_loop (r @ xs) s
     = scan_loop xs (s\<lparr>firstHighTide := Some (last r), lastPrediction := Some (last r)\<rparr>)"
proof (induction r arbitrary: lp s)
  case Nil
  then show ?case by simp
next
  case (Cons q qs)
  show ?case
  proof (cases qs)
    case Nil
    with Cons.prems show ?thesis by simp
  next
    case (Cons q' qs')
    with Cons.prems Cons.IH [of q "s\<lparr>firstHighTide := Some q, lastPrediction := Some q\<rparr>"]
    show ?thesis by simp
  qed
qed

lemma scan_fall:
  "falling_run lp f \<Longrightarrow> f \<noteq> [] \<Longrightarrow> lastPrediction s = Some lp \<Longrightarrow> firstHighTide s \<noteq> None \<Longrightarrow>
   secondHighTide s = None \<Longrightarrow>
   scan_loop (f @ xs) s
     = scan_loop xs
         (s\<lparr>firstTideDone := True, lowTide := Some (last f), lastPrediction := Some (last f)\<rparr>)"
proof (induction f arbitrary: lp s)
  case Nil
  then show ?case by simp
next
  case (Cons q qs)
  have step: "scan_loop (q # qs @ xs) s =
      scan_loop (qs @ xs) (s\<lparr>firstTideDone := True, lowTide := Some q, lastPrediction := Some q\<rparr>)"
    using Cons.prems by (cases s) auto
  show ?case
  proof (cases qs)
    case Nil
    with step show ?thesis by simp
  next
    case (Cons q' qs')
    with Cons.prems step
      Cons.IH [of q "s\<lparr>firstTideDone := True, lowTide := Some q, lastPrediction := Some q\<rparr>"]
    show ?thesis by simp
  qed
qed

lemma scan_rise_second:
  "rising_run lp r \<Longrightarrow> r \<noteq> [] \<Longrightarrow> lastPrediction s = Some lp \<Longrightarrow> firstTideDone s \<Longrightarrow>
   scan_loop (r @ xs) s
     = scan_loop xs (s\<lparr>secondHighTide := Some (last r), lastPrediction := Some (last r)\<rparr>)"
proof (induction r arbitrary: lp s)
  case Nil
  then show ?case by simp
next
  case (Cons q qs)
  show ?case
  proof (cases qs)
    case Nil
    with Cons.prems show ?thesis by simp
  next
    case (Cons q' qs')
    with Cons.prems Cons.IH [of q "s\<lparr>secondHighTide := Some q, lastPrediction := Some q\<rparr>"]
    show ?thesis by simp
  qed
qed

text \<open>
  A series that rises, falls, rises and then falls once more: each extreme the loop
  records is the last sample of its run, and the samples after the second fall are not
  read.
\<close>

lemma scan_three_runs:
  assumes "rising_run p0 r1" "r1 \<noteq> []" "falling_run (last r1) f" "f \<noteq> []"
    "rising_run (last f) r2" "r2 \<noteq> []" "\<not> isTideIncreasing (last r2) d"
  shows "scan_loop (p0 # r1 @ f @ r2 @ d # rest) scan_init =
    \<lparr>lastPrediction = Some (last r2), firstHighTide = Some (last r1),
     secondHighTide = Some (last r2), lowTide = Some (last f), firstTideDone = True\<rparr>"
proof -
  have "scan_loop (p0 # r1 @ f @ r2 @ d # rest) scan_init =
        scan_loop (r1 @ f @ r2 @ d # rest) (scan_init\<lparr>lastPrediction := Some p0\<rparr>)"
    by (simp add: scan_init_def)
  also have "\<dots> = scan_loop (f @ r2 @ d # rest)
      (scan_init\<lparr>lastPrediction := Some (last r1), firstHighTide := Some (last r1)\<rparr>)"
    using assms(1,2) by (simp add: scan_rise_first scan_init_def)
  also have "\<dots> = scan_loop (r2 @ d # rest)
      (scan_init\<lparr>lastPrediction := Some (last f), firstHighTide := Some (last r1),
         firstTideDone := True, lowTide := Some (last f)\<rparr>)"
    using assms(3,4) by (simp add: scan_fall scan_init_def)
  also have "\<dots> = scan_loop (d # rest)
      (scan_init\<lparr>lastPrediction := Some (last r2), firstHighTide := Some (last r1),
         firstTideDone := True, lowTide := Some (last f), secondHighTide := Some (last r2)\<rparr>)"
    using assms(5,6) by (simp add: scan_rise_second scan_init_def)
  also have "\<dots> = \<lparr>lastPrediction = Some (last r2), firstHighTide = Some (last r1),
     secondHighTide = Some (last r2), lowTide = Some (last f), firstTideDone = True\<rparr>"
    using assms(7) by (simp add: scan_init_def)
  finally show ?thesis .
qed

lemma findHighTide_tide_series:
  "findHighTide (example_env outcome parsed) \<lparr>noaa_error = None, predictions = Some tide_series\<rparr>
     = Inr example_summary"
  by (simp add: findHighTide_def tide_series_def scan_init_def isTideIncreasing_def
      example_env_def example_newDate_def getFormattedHeight_examples pad2_examples
      example_summary_def)

lemma findHighTide_rising_series:
  "findHighTide e \<lparr>noaa_error = None, predictions = Some rising_series\<rparr> = Inl TypeError"
  by (simp add: findHighTide_def rising_series_def scan_init_def isTideIncreasing_def)

lemma findHighTide_no_samples:
  "findHighTide e \<lparr>noaa_error = None, predictions = Some []\<rparr> = Inl TypeError"
  by (simp add: findHighTide_def scan_init_def)

text \<open>
  Claim C4, as stated, has the heights formatted "four feet" and "six feet"; for the
  series \<open>tide_series\<close> (1.0, 4.0, 2.0, 0.5, 3.0, 6.0, 5.0) the extractor formats them
  \<^verbatim>\<open>4 feet\<close> and \<^verbatim>\<open>6 feet\<close>.
\<close>

theorem heights_in_words_counterexample:
  "findHighTide (example_env (TransportError []) None)
       \<lparr>noaa_error = None, predictions = Some tide_series\<rparr>
     = Inr example_summary
   \<and> firstHighTideHeight example_summary \<noteq> ''four feet''
   \<and> secondHighTideHeight example_summary \<noteq> ''six feet''"
  by (simp add: findHighTide_tide_series) (simp add: example_summary_def)

text \<open>
  Claim C4, amended.  For a prediction series that starts with a sample, rises in a run
  that ends at level 4.0, falls in a run that ends at level 0.5, rises in a run that ends
  at level 6.0 and then has a sample that is not higher, \<^verbatim>\<open>findHighTide\<close> returns the last
  sample of the first rising run as the first high tide, with the height formatted
  \<^verbatim>\<open>4 feet\<close>, the last sample of the falling run as the low tide, and the last sample of the
  second rising run as the second high tide, with the height formatted \<^verbatim>\<open>6 feet\<close>.
\<close>

theorem findHighTide_three_runs:
  assumes "predictions obj = Some (p0 # r1 @ f @ r2 @ d # rest)"
    and "rising_run p0 r1" and "r1 \<noteq> []"
    and "falling_run (last r1) f" and "f \<noteq> []"
    and "rising_run (last f) r2" and "r2 \<noteq> []"
    and "\<not> isTideIncreasing (last r2) d"
    and "pred_v (last r1) = 4.0" and "pred_v (last f) = 0.5" and "pred_v (last r2) = 6.0"
  shows "findHighTide e obj =
    Inr \<lparr>firstHighTideTime = getFormattedTime e (newDate e (pred_t (last r1))),
         firstHighTideHeight = ''4 feet'',
         lowTideTime = getFormattedTime e (newDate e (pred_t (last f))),
         lowTideHeight = ''0 and a half feet'',
         secondHighTideTime = getFormattedTime e (newDate e (pred_t (last r2))),
         secondHighTideHeight = ''6 feet''\<rparr>"
proof -
  have "scan_loop (p0 # r1 @ f @ r2 @ d # rest) scan_init =
    \<lparr>lastPrediction = Some (last r2), firstHighTide = Some (last r1),
     secondHighTide = Some (last r2), lowTide = Some (last f), firstTideDone = True\<rparr>"
    using assms(2-8) by (rule scan_three_runs)
  moreover have "getFormattedHeight (pred_v (last r1)) = ''4 feet''"
    unfolding assms(9) by (simp add: getFormattedHeight_examples)
  moreover have "getFormattedHeight (pred_v (last f)) = ''0 and a half feet''"
    unfolding assms(10) by (simp add: getFormattedHeight_examples)
  moreover have "getFormattedHeight (pred_v (last r2)) = ''6 feet''"
    unfolding assms(11) by (simp add: getFormattedHeight_examples)
  ultimately show ?thesis
    using assms(1) by (simp add: findHighTide_def)
qed

theorem findHighTide_three_runs_witness:
  "rising_run (tide_series ! 0) [tide_series ! 1]
   \<and> falling_run (tide_series ! 1) [tide_series ! 2, tide_series ! 3]
   \<and> rising_run (tide_series ! 3) [tide_series ! 4, tide_series ! 5]
   \<and> \<not> isTideIncreasing (tide_series ! 5) (tide_series ! 6)
   \<and> pred_v (tide_series ! 1) = 4.0 \<and> pred_v (tide_series ! 3) = 0.5
   \<and> pred_v (tide_series ! 5) = 6.0
   \<and> findHighTide (example_env (TransportError []) None)
        \<lparr>noaa_error = None, predictions = Some tide_series\<rparr>
       = Inr \<lparr>firstHighTideTime = ''03:00'', firstHighTideHeight = ''4 feet'',
              lowTideTime = ''09:00'', lowTideHeight = ''0 and a half feet'',
              secondHighTideTime = ''15:00'', secondHighTideHeight = ''6 feet''\<rparr>"
proof -
  let ?obj = "\<lparr>noaa_error = None, predictions = Some tide_series\<rparr>"
  have split: "predictions ?obj =
      Some (tide_series ! 0 # [tide_series ! 1] @ [tide_series ! 2, tide_series ! 3]
            @ [tide_series ! 4, tide_series ! 5] @ tide_series ! 6 # [])"
    by (simp add: tide_series_def)
  have r1: "rising_run (tide_series ! 0) [tide_series ! 1]"
    by (simp add: tide_series_def isTideIncreasing_def)
  have f: "falling_run (last [tide_series ! 1]) [tide_series ! 2, tide_series ! 3]"
    by (simp add: tide_series_def isTideIncreasing_def)
  have r2: "rising_run (last [tide_series ! 2, tide_series ! 3]) [tide_series ! 4, tide_series ! 5]"
    by (simp add: tide_series_def isTideIncreasing_def)
  have d: "\<not> isTideIncreasing (last [tide_series ! 4, tide_series ! 5]) (tide_series ! 6)"
    by (simp add: tide_series_def isTideIncreasing_def)
  have v1: "pred_v (last [tide_series ! 1]) = 4.0"
    and v2: "pred_v (last [tide_series ! 2, tide_series ! 3]) = 0.5"
    and v3: "pred_v (last [tide_series ! 4, tide_series ! 5]) = 6.0"
    by (simp_all add: tide_series_def)
  have "findHighTide (example_env (TransportError []) None) ?obj =
    Inr \<lparr>firstHighTideTime = getFormattedTime (example_env (TransportError []) None)
           (newDate (example_env (TransportError []) None) (pred_t (last [tide_series ! 1]))),
         firstHighTideHeight = ''4 feet'',
         lowTideTime = getFormattedTime (example_env (TransportError []) None)
           (newDate (example_env (TransportError []) None)
              (pred_t (last [tide_series ! 2, tide_series ! 3]))),
         lowTideHeight = ''0 and a half feet'',
         secondHighTideTime = getFormattedTime (example_env (TransportError []) None)
           (newDate (example_env (TransportError []) None)
              (pred_t (last [tide_series ! 4, tide_series ! 5]))),
         secondHighTideHeight = ''6 feet''\<rparr>"
    by (rule findHighTide_three_runs [OF split r1 _ f _ r2 _ d v1 v2 v3]) simp_all
  moreover have "pred_t (tide_series ! 1) = ''2017-09-23 03:00''"
    "pred_t (tide_series ! 3) = ''2017-09-23 09:00''"
    "pred_t (tide_series ! 5) = ''2017-09-23 15:00''"
    by (simp_all add: tide_series_def)
  ultimately have "findHighTide (example_env (TransportError []) None) ?obj
       = Inr \<lparr>firstHighTideTime = ''03:00'', firstHighTideHeight = ''4 feet'',
              lowTideTime = ''09:00'', lowTideHeight = ''0 and a half feet'',
              secondHighTideTime = ''15:00'', secondHighTideHeight = ''6 feet''\<rparr>"
    by (simp add: example_env_def example_newDate_def pad2_examples)
  with r1 f r2 d v1 v2 v3 show ?thesis by simp
qed

section \<open>Tide data fetcher\<close>

lemma makeTideRequest_url:
  "url (makeTideRequest e st date) =
     ''https://tidesandcurrents.noaa.gov/api/datagetter?'' @ requestDateParam date
     @ ''&station='' @ station_str st
     @ ''&product=predictions&datum=MLLW&application=Alexa.CapeCod.Tides&units=english&time_zone=lst_ldt&format=json''"
  by (simp add: makeTideRequest_def Let_def split: http_outcome.split option.split sum.split)

lemma requested_getFinalTideResponse:
  "requested (getFinalTideResponse e cityStation date attrs) =
     [''https://tidesandcurrents.noaa.gov/api/datagetter?'' @ requestDateParam date
      @ ''&station='' @ station_str (station cityStation)
      @ ''&product=predictions&datum=MLLW&application=Alexa.CapeCod.Tides&units=english&time_zone=lst_ldt&format=json'']"
  by (simp add: getFinalTideResponse_def Let_def makeTideRequest_url)

text \<open>A transport error reaches the user once, as the service message.\<close>

lemma transport_error_one_message:
  "getFinalTideResponse (example_env (TransportError message) parsed) cityStation date attrs =
     \<lparr>session = attrs,
      said = [tellWithCard
        ''Sorry, the National Oceanic tide service is experiencing a problem. Please try again later''
        ''CapeCodTides''
        ''Sorry, the National Oceanic tide service is experiencing a problem. Please try again later''],
      requested = requested (getFinalTideResponse (example_env (TransportError message) parsed)
        cityStation date attrs),
      uncaught = None\<rparr>"
  by (simp add: getFinalTideResponse_def makeTideRequest_def example_env_def
      tideResponseCallback_def Let_def)

text \<open>
  Claim C2.  The claim asks that a prediction series without the direction reversals
  ends the turn with the service message.  A one-shot request without slots, answered
  with status 200 and the series \<open>rising_series\<close> (1.0, 2.0, 3.0), makes no call on the
  response object: \<^verbatim>\<open>findHighTide\<close> reads \<^verbatim>\<open>lowTide.t\<close> of the unassigned \<^verbatim>\<open>lowTide\<close>, and the
  \<^verbatim>\<open>TypeError\<close> leaves the \<^verbatim>\<open>end\<close> handler.
\<close>

theorem series_without_reversal_aborts_turn:
  "handleOneshotTideRequest
     (example_env (HttpResponse 200 body)
        (Some \<lparr>noaa_error = None, predictions = Some rising_series\<rparr>))
     \<lparr>City = None, Date = None\<rparr> attrs
   = \<lparr>session = attrs, said = [],
      requested = [''https://tidesandcurrents.noaa.gov/api/datagetter?date=today&station=8446493&product=predictions&datum=MLLW&application=Alexa.CapeCod.Tides&units=english&time_zone=lst_ldt&format=json''],
      uncaught = Some TypeError\<rparr>"
  by (simp add: handleOneshotTideRequest_def getCityStationFromIntent_def slot_value_def
      STATIONS_get_plymouth getDateFromIntent_def getFinalTideResponse_def makeTideRequest_def
      example_env_def findHighTide_rising_series station_str_def show_nat_plymouth Let_def)

text \<open>
  Claim C3.  The claim asks that an error field in the remote payload gives the service
  message.  A one-shot request without slots, answered with status 200 and a payload
  with an error field, makes no call on the response object: the \<^verbatim>\<open>ReferenceError\<close> of
  \<^verbatim>\<open>noaaResponseObj\<close> leaves the \<^verbatim>\<open>end\<close> handler before the callback is called.
\<close>

theorem error_payload_aborts_turn:
  "handleOneshotTideRequest
     (example_env (HttpResponse 200 body)
        (Some \<lparr>noaa_error = Some message, predictions = None\<rparr>))
     \<lparr>City = None, Date = None\<rparr> attrs
   = \<lparr>session = attrs, said = [],
      requested = [''https://tidesandcurrents.noaa.gov/api/datagetter?date=today&station=8446493&product=predictions&datum=MLLW&application=Alexa.CapeCod.Tides&units=english&time_zone=lst_ldt&format=json''],
      uncaught = Some ReferenceError\<rparr>"
  by (simp add: handleOneshotTideRequest_def getCityStationFromIntent_def slot_value_def
      STATIONS_get_plymouth getDateFromIntent_def getFinalTideResponse_def makeTideRequest_def
      example_env_def station_str_def show_nat_plymouth Let_def)

text \<open>
  Claim C9.  When the response has a status code other than 200 and its body is JSON
  without an error field, with a series from which \<^verbatim>\<open>findHighTide\<close> returns a summary, the
  callback is called twice: first with the error \<^verbatim>\<open>Non 200 Response\<close>, then with the
  summary.  The final response path then calls \<^verbatim>\<open>tellWithCard\<close> twice in the one turn.
\<close>

theorem non200_two_callbacks:
  assumes "https_get e (url (makeTideRequest e st date)) = HttpResponse statusCode body"
    and "statusCode \<noteq> 200"
    and "JSON_parse e body = Some obj"
    and "noaa_error obj = None"
    and "findHighTide e obj = Inr highTide"
  shows "callbacks (makeTideRequest e st date)
           = [CallbackError ''Non 200 Response'', CallbackResult highTide]
       \<and> thrown (makeTideRequest e st date) = None
       \<and> length (said (getFinalTideResponse e \<lparr>error = False, city = c, station = st\<rparr> date attrs)) = 2"
proof -
  have "https_get e (''https://tidesandcurrents.noaa.gov/api/datagetter?'' @ requestDateParam date
     @ ''&station='' @ station_str st
     @ ''&product=predictions&datum=MLLW&application=Alexa.CapeCod.Tides&units=english&time_zone=lst_ldt&format=json'')
     = HttpResponse statusCode body"
    using assms(1) by (simp only: makeTideRequest_url)
  then have "makeTideRequest e st date =
     \<lparr>url = url (makeTideRequest e st date),
      callbacks = [CallbackError ''Non 200 Response'', CallbackResult highTide], thrown = None\<rparr>"
    using assms(2-5) by (simp add: makeTideRequest_def Let_def)
  then have "callbacks (makeTideRequest e st date)
           = [CallbackError ''Non 200 Response'', CallbackResult highTide]
       \<and> thrown (makeTideRequest e st date) = None"
    by (metis fetch.select_convs(2,3))
  then show ?thesis by (simp add: getFinalTideResponse_def Let_def)
qed

theorem non200_two_callbacks_witness:
  "(500 :: nat) \<noteq> 200
   \<and> callbacks (makeTideRequest
        (example_env (HttpResponse 500 ''payload'')
           (Some \<lparr>noaa_error = None, predictions = Some tide_series\<rparr>))
        (StationId 8446493) \<lparr>displayDate = ''Today'', requestDateParam = ''date=today''\<rparr>)
     = [CallbackError ''Non 200 Response'', CallbackResult example_summary]"
proof -
  let ?obj = "\<lparr>noaa_error = None, predictions = Some tide_series\<rparr>"
  let ?e = "example_env (HttpResponse 500 ''payload'') (Some ?obj)"
  let ?date = "\<lparr>displayDate = ''Today'', requestDateParam = ''date=today''\<rparr>"
  have get: "https_get ?e (url (makeTideRequest ?e (StationId 8446493) ?date))
      = HttpResponse 500 ''payload''"
    by (simp add: example_env_def)
  have status: "(500 :: nat) \<noteq> 200" by simp
  have parse: "JSON_parse ?e ''payload'' = Some ?obj"
    by (simp add: example_env_def)
  have noerr: "noaa_error ?obj = None" by simp
  have high: "findHighTide ?e ?obj = Inr example_summary"
    by (rule findHighTide_tide_series)
  from non200_two_callbacks [OF get status parse noerr high] status
  show ?thesis by simp
qed

section \<open>Dialog orchestrator\<close>

lemma slot_value_Some_notNil: "slot_value s = Some c \<Longrightarrow> c \<noteq> []"
  by (auto simp: slot_value_def split: option.splits if_splits)

lemma getAllStationsText_value:
  "getAllStationsText =
     ''plymouth, barnstable, sesuit harbor, wellfleet, provincetown, chatham stage harbor, ''
     @ ''harwichport wychmere harbor, south yarmouth bass river, dennisport, hyannisport, ''
     @ ''falmouth, woods hole, marion, new bedford, westport, duxbury, hingham, ''"
  by (simp add: getAllStationsText_def STATIONS_def)

text \<open>
  A one-shot request whose city value finds nothing in \<^verbatim>\<open>STATIONS\<close> is answered with the
  unknown-city reprompt, whatever the date slot and the collaborators are; nothing is
  requested and the session attributes are unchanged.
\<close>

lemma oneshot_unknown_city:
  assumes "slot_value (City intent) = Some c" and "STATIONS_get (toLowerCase c) = Undefined"
  shows "handleOneshotTideRequest e intent attrs =
     \<lparr>session = attrs,
      said = [ask (''I'm sorry, I don't have any data for '' @ c @ ''. '' @ unknownCityReprompt)
                unknownCityReprompt],
      requested = [], uncaught = None\<rparr>
     \<and> list_all keepsSessionOpen (said (handleOneshotTideRequest e intent attrs))"
  using assms slot_value_Some_notNil [OF assms(1)]
  by (simp add: handleOneshotTideRequest_def getCityStationFromIntent_def truthy_def
      unknownCitySpeech_def keepsSessionOpen_def)

lemma oneshot_Nowhereville:
  "handleOneshotTideRequest e \<lparr>City = Some (Some ''Nowhereville''), Date = Some (Some ''Saturday'')\<rparr> attrs =
     \<lparr>session = attrs,
      said = [ask (''I'm sorry, I don't have any data for Nowhereville. '' @ unknownCityReprompt)
                unknownCityReprompt],
      requested = [], uncaught = None\<rparr>"
proof -
  have "STATIONS_get (toLowerCase ''Nowhereville'') = Undefined"
    by (simp add: toLowerCase_def toLowerChar_def upper_case_def lower_case_def
        STATIONS_get_def STATIONS_def)
  moreover have "slot_value (City \<lparr>City = Some (Some ''Nowhereville''), Date = Some (Some ''Saturday'')\<rparr>)
      = Some ''Nowhereville''"
    by (simp add: slot_value_def)
  ultimately show ?thesis
    using oneshot_unknown_city [of "\<lparr>City = Some (Some ''Nowhereville''), Date = Some (Some ''Saturday'')\<rparr>"
        "''Nowhereville''" e attrs, THEN conjunct1]
    by simp
qed

text \<open>
  Claim C6.  The claim asks for the unknown-city reprompt, and no network call, for
  every city value that is not in the station directory.  The value \<^verbatim>\<open>constructor\<close> is not
  a key of \<^verbatim>\<open>STATIONS\<close>, but the read \<^verbatim>\<open>STATIONS["constructor"]\<close> finds the inherited property
  of that name, which is truthy: the city resolver reports no error, and the one-shot
  handler goes on to the date and requests the URL with that function as the station.
\<close>

theorem inherited_name_taken_for_city:
  "map_of STATIONS ''constructor'' = None
   \<and> getCityStationFromIntent \<lparr>City = Some (Some ''constructor''), Date = None\<rparr> True
       = \<lparr>error = False, city = Some ''constructor'', station = ObjectFunction\<rparr>
   \<and> requested (handleOneshotTideRequest e \<lparr>City = Some (Some ''constructor''), Date = None\<rparr> attrs)
       = [''https://tidesandcurrents.noaa.gov/api/datagetter?date=today&station=function Object() { [native code] }&product=predictions&datum=MLLW&application=Alexa.CapeCod.Tides&units=english&time_zone=lst_ldt&format=json'']"
proof -
  have lower: "toLowerCase ''constructor'' = ''constructor''"
    by (simp add: toLowerCase_def toLowerChar_def upper_case_def lower_case_def)
  have own: "map_of STATIONS ''constructor'' = None"
    by (simp add: STATIONS_def)
  then have get: "STATIONS_get ''constructor'' = ObjectFunction"
    by (simp add: STATIONS_get_def)
  have city: "getCityStationFromIntent \<lparr>City = Some (Some ''constructor''), Date = None\<rparr> True
       = \<lparr>error = False, city = Some ''constructor'', station = ObjectFunction\<rparr>"
    by (simp add: getCityStationFromIntent_def slot_value_def lower get truthy_def)
  have "requested (handleOneshotTideRequest e \<lparr>City = Some (Some ''constructor''), Date = None\<rparr> attrs)
       = [''https://tidesandcurrents.noaa.gov/api/datagetter?date=today&station=function Object() { [native code] }&product=predictions&datum=MLLW&application=Alexa.CapeCod.Tides&units=english&time_zone=lst_ldt&format=json'']"
    by (simp add: handleOneshotTideRequest_def city getDateFromIntent_def slot_value_def
        requested_getFinalTideResponse station_str_def)
  with own city show ?thesis by simp
qed

text \<open>
  Claim C7.  In the dialog, a first turn with a city of the station directory and no
  date stored stores the resolved city in the session and asks "For which date?" without
  requesting anything; a second turn with a date value that is a calendar date (and no
  city value) then requests exactly one URL, built from the station identifier of the
  stored city and the begin date and 24 hour range of the resolved date.
\<close>

theorem dialog_city_then_date_fetches_once:
  assumes city1: "slot_value (City turn1) = Some c"
    and known: "map_of STATIONS (toLowerCase c) = Some n"
    and nodate: "attributes_date attrs = None"
    and nocity2: "slot_value (City turn2) = None"
    and date2: "slot_value (Date turn2) = Some d"
    and valid: "newDate e d = DateTime y m dd hh mi"
  shows "said (DialogTideIntent e turn1 attrs)
           = [ask ''For which date?''
                (''For which date would you like tide information for '' @ c @ ''?'')]
       \<and> requested (DialogTideIntent e turn1 attrs) = []
       \<and> session (DialogTideIntent e turn1 attrs)
           = attrs\<lparr>attributes_city := Some \<lparr>error = False, city = Some c, station = StationId n\<rparr>\<rparr>
       \<and> requested (DialogTideIntent e turn2 (session (DialogTideIntent e turn1 attrs)))
           = [''https://tidesandcurrents.noaa.gov/api/datagetter?begin_date=''
              @ show_int y @ pad2 (m + 1) @ pad2 dd @ ''&range=24&station='' @ show_nat n
              @ ''&product=predictions&datum=MLLW&application=Alexa.CapeCod.Tides&units=english&time_zone=lst_ldt&format=json'']"
proof -
  have station: "STATIONS_get (toLowerCase c) = StationId n" and nz: "n \<noteq> 0"
    using known by (simp_all add: STATIONS_get_own STATIONS_nonzero)
  have resolved: "getCityStationFromIntent turn1 False
      = \<lparr>error = False, city = Some c, station = StationId n\<rparr>"
    using city1 station nz by (simp add: getCityStationFromIntent_def truthy_def)
  have first: "DialogTideIntent e turn1 attrs =
      \<lparr>session = attrs\<lparr>attributes_city := Some \<lparr>error = False, city = Some c, station = StationId n\<rparr>\<rparr>,
       said = [ask ''For which date?''
                 (''For which date would you like tide information for '' @ c @ ''?'')],
       requested = [], uncaught = None\<rparr>"
    using city1 nodate
    by (simp add: DialogTideIntent_def handleCityDialogRequest_def resolved js_str_def)
  have date: "getDateFromIntent e turn2 =
      Some \<lparr>displayDate = getFormattedDate e (DateTime y m dd hh mi),
            requestDateParam = ''begin_date='' @ show_int y @ pad2 (m + 1) @ pad2 dd @ ''&range=24''\<rparr>"
    using date2 valid by (simp add: getDateFromIntent_def)
  have second: "requested (DialogTideIntent e turn2
         (attrs\<lparr>attributes_city := Some \<lparr>error = False, city = Some c, station = StationId n\<rparr>\<rparr>))
      = [''https://tidesandcurrents.noaa.gov/api/datagetter?begin_date=''
              @ show_int y @ pad2 (m + 1) @ pad2 dd @ ''&range=24&station='' @ show_nat n
              @ ''&product=predictions&datum=MLLW&application=Alexa.CapeCod.Tides&units=english&time_zone=lst_ldt&format=json'']"
    using nocity2 date2
    by (simp add: DialogTideIntent_def handleDateDialogRequest_def date
        requested_getFinalTideResponse station_str_def)
  from first second show ?thesis by simp
qed

theorem dialog_city_then_date_fetches_once_witness:
  "slot_value (City \<lparr>City = Some (Some ''Plymouth''), Date = None\<rparr>) = Some ''Plymouth''
   \<and> map_of STATIONS (toLowerCase ''Plymouth'') = Some 8446493
   \<and> slot_value (City \<lparr>City = None, Date = Some (Some ''2017-09-23'')\<rparr>) = None
   \<and> slot_value (Date \<lparr>City = None, Date = Some (Some ''2017-09-23'')\<rparr>) = Some ''2017-09-23''
   \<and> newDate (example_env (TransportError ''timeout'') None) ''2017-09-23'' = DateTime 2017 8 23 0 0
   \<and> said (DialogTideIntent (example_env (TransportError ''timeout'') None)
        \<lparr>City = Some (Some ''Plymouth''), Date = None\<rparr>
        \<lparr>attributes_city = None, attributes_date = None\<rparr>)
       = [ask ''For which date?'' ''For which date would you like tide information for Plymouth?'']
   \<and> requested (DialogTideIntent (example_env (TransportError ''timeout'') None)
        \<lparr>City = None, Date = Some (Some ''2017-09-23'')\<rparr>
        (session (DialogTideIntent (example_env (TransportError ''timeout'') None)
           \<lparr>City = Some (Some ''Plymouth''), Date = None\<rparr>
           \<lparr>attributes_city = None, attributes_date = None\<rparr>)))
       = [''https://tidesandcurrents.noaa.gov/api/datagetter?begin_date=20170923&range=24&station=8446493&product=predictions&datum=MLLW&application=Alexa.CapeCod.Tides&units=english&time_zone=lst_ldt&format=json'']"
proof -
  let ?e = "example_env (TransportError ''timeout'') None"
  let ?t1 = "\<lparr>City = Some (Some ''Plymouth''), Date = None\<rparr>"
  let ?t2 = "\<lparr>City = None, Date = Some (Some ''2017-09-23'')\<rparr>"
  let ?a = "\<lparr>attributes_city = None, attributes_date = None\<rparr>"
  have city1: "slot_value (City ?t1) = Some ''Plymouth''" by (simp add: slot_value_def)
  have known: "map_of STATIONS (toLowerCase ''Plymouth'') = Some 8446493"
    by (simp add: toLowerCase_Plymouth STATIONS_def)
  have nodate: "attributes_date ?a = None" by simp
  have nocity2: "slot_value (City ?t2) = None" by (simp add: slot_value_def)
  have date2: "slot_value (Date ?t2) = Some ''2017-09-23''" by (simp add: slot_value_def)
  have valid: "newDate ?e ''2017-09-23'' = DateTime 2017 8 23 0 0"
    by (simp add: example_env_def example_newDate_def)
  note both_turns = dialog_city_then_date_fetches_once [OF city1 known nodate nocity2 date2 valid]
  have asked: "said (DialogTideIntent ?e ?t1 ?a)
      = [ask ''For which date?'' ''For which date would you like tide information for Plymouth?'']"
    using both_turns [THEN conjunct1] by simp
  have fetched: "requested (DialogTideIntent ?e ?t2 (session (DialogTideIntent ?e ?t1 ?a)))
      = [''https://tidesandcurrents.noaa.gov/api/datagetter?begin_date=20170923&range=24&station=8446493&product=predictions&datum=MLLW&application=Alexa.CapeCod.Tides&units=english&time_zone=lst_ldt&format=json'']"
    using both_turns [THEN conjunct2, THEN conjunct2, THEN conjunct2]
    by (simp add: show_int_2017 pad2_examples show_nat_plymouth)
  show ?thesis
    by (intro conjI; fact)
qed



end
